theory Spec2Isabelle
  imports Complex_Main
begin

section \<open>Python values\<close>

text \<open>
  A Python float is a finite value, one of the two infinities, or NaN. \<open>Finite r\<close> is the
  float whose value is \<open>r\<close>. A decimal literal of the source is read as its decimal value:
  the doubles nearest to 0.85 and to 0.6 lie below 0.85 and 0.6 with no double in between,
  so every comparison of a double with the literal is decided the same way.
\<close>

datatype pyfloat = Finite real | PosInf | NegInf | NaN

text \<open>The comparisons \<open>a > b\<close> and \<open>a <= b\<close> of two floats: false whenever one side is NaN.\<close>

fun float_gt :: "pyfloat \<Rightarrow> pyfloat \<Rightarrow> bool" where
  "float_gt NaN b = False"
| "float_gt a NaN = False"
| "float_gt (Finite a) (Finite b) = (b < a)"
| "float_gt (Finite a) PosInf = False"
| "float_gt (Finite a) NegInf = True"
| "float_gt PosInf PosInf = False"
| "float_gt PosInf b = True"
| "float_gt NegInf b = False"

fun float_le :: "pyfloat \<Rightarrow> pyfloat \<Rightarrow> bool" where
  "float_le NaN b = False"
| "float_le a NaN = False"
| "float_le (Finite a) (Finite b) = (a \<le> b)"
| "float_le (Finite a) PosInf = True"
| "float_le (Finite a) NegInf = False"
| "float_le PosInf PosInf = True"
| "float_le PosInf b = False"
| "float_le NegInf b = True"

text \<open>
  What \<open>r.json()\<close> returns: \<open>None\<close>, a bool, an int, a float (the parser also reads the
  literals NaN and Infinity), a str, a list, or a dict. A dict is kept as an association
  list and read with \<open>map_of\<close>.
\<close>

datatype json =
    JNull
  | JBool bool
  | JInt int
  | JFloat pyfloat
  | JStr string
  | JList "json list"
  | JDict "(string \<times> json) list"

text \<open>The exceptions the code can meet; all of them are subclasses of \<open>Exception\<close>.\<close>

datatype py_error =
    RequestException
  | HTTPError
  | JSONDecodeError
  | AttributeError
  | TypeError
  | ValueError
  | OverflowError
  | ValidationError
  | StoreError

text \<open>
  Library behaviour the repository calls but does not define, taken as a parameter:
  \<open>float(s)\<close> on a str (\<open>None\<close> is ValueError), \<open>float(n)\<close> on an int beyond \<open>2^53\<close>
  (rounded; \<open>None\<close> is OverflowError), and what a pydantic \<open>str\<close> field does with a value
  that is neither a str nor \<open>None\<close> (\<open>None\<close> is a ValidationError; some versions coerce
  numbers).
\<close>

record pylib =
  float_of_str :: "string \<Rightarrow> pyfloat option"
  float_of_big_int :: "int \<Rightarrow> pyfloat option"
  str_coerce :: "json \<Rightarrow> string option"

text \<open>The builtin \<open>float(v)\<close>.\<close>

fun py_float :: "pylib \<Rightarrow> json \<Rightarrow> py_error + pyfloat" where
  "py_float lib (JFloat f) = Inr f"
| "py_float lib (JInt n) =
     (if \<bar>n\<bar> \<le> 2 ^ 53 then Inr (Finite (of_int n))
      else (case float_of_big_int lib n of None \<Rightarrow> Inl OverflowError | Some f \<Rightarrow> Inr f))"
| "py_float lib (JBool b) = Inr (Finite (if b then 1 else 0))"
| "py_float lib (JStr s) =
     (case float_of_str lib s of None \<Rightarrow> Inl ValueError | Some f \<Rightarrow> Inr f)"
| "py_float lib v = Inl TypeError"

text \<open>Truth value of an object, as \<open>or\<close> tests it.\<close>

fun truthy :: "json \<Rightarrow> bool" where
  "truthy JNull = False"
| "truthy (JBool b) = b"
| "truthy (JInt n) = (n \<noteq> 0)"
| "truthy (JFloat (Finite r)) = (r \<noteq> 0)"
| "truthy (JFloat f) = True"
| "truthy (JStr s) = (s \<noteq> [])"
| "truthy (JList xs) = (xs \<noteq> [])"
| "truthy (JDict kvs) = (kvs \<noteq> [])"

definition py_or :: "json \<Rightarrow> json \<Rightarrow> json" where
  "py_or a b = (if truthy a then a else b)"

text \<open>\<open>d.get(k, default)\<close> and \<open>d.get(k)\<close> on a dict.\<close>

definition dget_default :: "(string \<times> json) list \<Rightarrow> string \<Rightarrow> json \<Rightarrow> json" where
  "dget_default kvs k d = (case map_of kvs k of None \<Rightarrow> d | Some v \<Rightarrow> v)"

definition dget :: "(string \<times> json) list \<Rightarrow> string \<Rightarrow> json" where
  "dget kvs k = dget_default kvs k JNull"

text \<open>Validation of a pydantic field of type \<open>str\<close> and of type \<open>Optional[str]\<close>.\<close>

fun validate_str :: "pylib \<Rightarrow> json \<Rightarrow> py_error + string" where
  "validate_str lib (JStr s) = Inr s"
| "validate_str lib JNull = Inl ValidationError"
| "validate_str lib v =
     (case str_coerce lib v of None \<Rightarrow> Inl ValidationError | Some s \<Rightarrow> Inr s)"

fun validate_opt_str :: "pylib \<Rightarrow> json \<Rightarrow> py_error + string option" where
  "validate_opt_str lib JNull = Inr None"
| "validate_opt_str lib v =
     (case validate_str lib v of Inl e \<Rightarrow> Inl e | Inr s \<Rightarrow> Inr (Some s))"

text \<open>
  The loop \<open>for it in items: out.append(f(it))\<close>; an exception raised by \<open>f\<close> leaves the
  loop.
\<close>

fun append_each :: "('a \<Rightarrow> py_error + 'b) \<Rightarrow> 'a list \<Rightarrow> 'b list \<Rightarrow> py_error + 'b list" where
  "append_each f [] out = Inr out"
| "append_each f (it # items) out =
     (case f it of Inl e \<Rightarrow> Inl e | Inr y \<Rightarrow> append_each f items (out @ [y]))"

section \<open>Pydantic models\<close>

record PredictRequest =
  image :: string

record PredictResponse =
  disease :: string
  confidence :: pyfloat
  organ :: "string option"
  severity :: "string option"

record TreatmentItem =
  symptoms :: "string option"
  organic :: "string option"
  chemical :: "string option"
  prevention :: "string option"

record ProductItem =
  name :: string
  price :: "pyfloat option"
  url :: "string option"
  image :: "string option"

record TutorialItem =
  title :: string
  videoId :: "string option"
  thumbnail :: "string option"
  url :: "string option"

record AnalyzeResponse =
  result :: PredictResponse
  treatments :: "TreatmentItem list"
  products :: "ProductItem list"
  tutorials :: "TutorialItem list"

text \<open>
  The constructor calls, with the field validation they run. A float handed to a \<open>float\<close>
  field and a str literal handed to an \<open>Optional[str]\<close> field always validate.
\<close>

definition new_PredictResponse ::
  "pylib \<Rightarrow> json \<Rightarrow> pyfloat \<Rightarrow> string \<Rightarrow> string \<Rightarrow> py_error + PredictResponse" where
  "new_PredictResponse lib d c og sv =
     (case validate_str lib d of
        Inl e \<Rightarrow> Inl e
      | Inr s \<Rightarrow> Inr \<lparr>disease = s, confidence = c, organ = Some og, severity = Some sv\<rparr>)"

definition new_TreatmentItem ::
  "pylib \<Rightarrow> json \<Rightarrow> json \<Rightarrow> json \<Rightarrow> json \<Rightarrow> py_error + TreatmentItem" where
  "new_TreatmentItem lib sy og ch pr =
     (case validate_opt_str lib sy of Inl e \<Rightarrow> Inl e | Inr a \<Rightarrow>
      (case validate_opt_str lib og of Inl e \<Rightarrow> Inl e | Inr b \<Rightarrow>
      (case validate_opt_str lib ch of Inl e \<Rightarrow> Inl e | Inr c \<Rightarrow>
      (case validate_opt_str lib pr of Inl e \<Rightarrow> Inl e | Inr d \<Rightarrow>
         Inr \<lparr>symptoms = a, organic = b, chemical = c, prevention = d\<rparr>))))"

definition new_ProductItem ::
  "pylib \<Rightarrow> json \<Rightarrow> pyfloat option \<Rightarrow> json \<Rightarrow> json \<Rightarrow> py_error + ProductItem" where
  "new_ProductItem lib nm pr u im =
     (case validate_str lib nm of Inl e \<Rightarrow> Inl e | Inr a \<Rightarrow>
      (case validate_opt_str lib u of Inl e \<Rightarrow> Inl e | Inr c \<Rightarrow>
      (case validate_opt_str lib im of Inl e \<Rightarrow> Inl e | Inr d \<Rightarrow>
         Inr \<lparr>name = a, price = pr, ProductItem.url = c, ProductItem.image = d\<rparr>)))"

definition new_TutorialItem ::
  "pylib \<Rightarrow> json \<Rightarrow> json \<Rightarrow> json \<Rightarrow> json \<Rightarrow> py_error + TutorialItem" where
  "new_TutorialItem lib ti vi th u =
     (case validate_str lib ti of Inl e \<Rightarrow> Inl e | Inr a \<Rightarrow>
      (case validate_opt_str lib vi of Inl e \<Rightarrow> Inl e | Inr b \<Rightarrow>
      (case validate_opt_str lib th of Inl e \<Rightarrow> Inl e | Inr c \<Rightarrow>
      (case validate_opt_str lib u of Inl e \<Rightarrow> Inl e | Inr d \<Rightarrow>
         Inr \<lparr>title = a, videoId = b, thumbnail = c, url = d\<rparr>))))"

section \<open>The upstream service and the document store\<close>

text \<open>
  One outbound call, \<open>requests.post\<close> or \<open>requests.get\<close> followed by
  \<open>raise_for_status()\<close> and \<open>json()\<close>, ends with an exception (transport failure or
  timeout, error status, a body that is not JSON) or with the parsed body. The upstream
  service is the four calls as functions of what is sent.
\<close>

record upstream =
  post_predict :: "string \<Rightarrow> py_error + json"
  get_treatments :: "string \<Rightarrow> py_error + json"
  get_products :: "string \<Rightarrow> py_error + json"
  get_tutorials :: "string \<Rightarrow> py_error + json"

text \<open>
  The module \<open>database\<close> is imported, not defined here: its two operations are parameters
  over a store state \<open>'s\<close>. \<open>create_document\<close> returns the exception it raised, if any,
  and the store after the call; \<open>find_recent limit\<close> is
  \<open>list(db["analysis"].find({}).sort("created_at", -1).limit(limit))\<close>. The global
  \<open>db\<close> is \<open>None\<close> or such a store.
\<close>

record 's database =
  create_document :: "string \<Rightarrow> (string \<times> json) list \<Rightarrow> 's \<Rightarrow> py_error option \<times> 's"
  find_recent :: "int \<Rightarrow> 's \<Rightarrow> py_error + json list"

section \<open>Helpers\<close>

subsection \<open>\<open>external_predict\<close>\<close>

text \<open>The conditional expression that computes \<open>severity\<close> from \<open>confidence\<close>.\<close>

definition severity_of :: "pyfloat \<Rightarrow> string" where
  "severity_of c =
     (if float_gt c (Finite 0.85) then ''high''
      else (if float_gt c (Finite 0.6) then ''medium'' else ''low''))"

text \<open>The body of the \<open>try\<close>: it yields \<open>disease\<close> and \<open>confidence\<close>.\<close>

fun predict_data :: "pylib \<Rightarrow> json \<Rightarrow> py_error + json \<times> pyfloat" where
  "predict_data lib (JDict kvs) =
     (case py_float lib (dget_default kvs ''confidence'' (JFloat (Finite 0.5))) of
        Inl e \<Rightarrow> Inl e
      | Inr c \<Rightarrow> Inr (dget_default kvs ''disease'' (JStr ''Unknown''), c))"
| "predict_data lib v = Inl AttributeError"

definition predict_try :: "pylib \<Rightarrow> upstream \<Rightarrow> string \<Rightarrow> py_error + json \<times> pyfloat" where
  "predict_try lib up image_base64 =
     (case post_predict up image_base64 of
        Inl e \<Rightarrow> Inl e
      | Inr data \<Rightarrow> predict_data lib data)"

definition external_predict :: "pylib \<Rightarrow> upstream \<Rightarrow> string \<Rightarrow> py_error + PredictResponse" where
  "external_predict lib up image_base64 =
     (case (case predict_try lib up image_base64 of
              Inl e \<Rightarrow> (JStr ''Leaf Blight'', Finite 0.87)
            | Inr dc \<Rightarrow> dc) of
        (d, c) \<Rightarrow> new_PredictResponse lib d c ''leaf'' (severity_of c))"

subsection \<open>\<open>external_treatments\<close>\<close>

text \<open>The record built in the \<open>else\<close> branch and again in the handler.\<close>

definition leaf_spot_advice :: TreatmentItem where
  "leaf_spot_advice =
     \<lparr>symptoms = Some ''Spots and lesions on leaves'',
      organic = Some ''Neem oil spray weekly'',
      chemical = Some ''Copper-based fungicide as directed'',
      prevention = Some ''Ensure proper spacing and airflow''\<rparr>"

fun treatment_item :: "pylib \<Rightarrow> json \<Rightarrow> py_error + TreatmentItem" where
  "treatment_item lib (JDict kvs) =
     new_TreatmentItem lib (dget kvs ''symptoms'') (dget kvs ''organic'') (dget kvs ''chemical'')
       (py_or (dget kvs ''prevention'') (dget kvs ''preventive''))"
| "treatment_item lib v = Inl AttributeError"

definition treatments_try :: "pylib \<Rightarrow> upstream \<Rightarrow> string \<Rightarrow> py_error + TreatmentItem list" where
  "treatments_try lib up d =
     (case get_treatments up d of
        Inl e \<Rightarrow> Inl e
      | Inr items \<Rightarrow>
          (case items of
             JList its \<Rightarrow> append_each (treatment_item lib) its []
           | _ \<Rightarrow> Inr ([] @ [leaf_spot_advice])))"

definition external_treatments :: "pylib \<Rightarrow> upstream \<Rightarrow> string \<Rightarrow> TreatmentItem list" where
  "external_treatments lib up d =
     (case treatments_try lib up d of
        Inr out \<Rightarrow> out
      | Inl e \<Rightarrow> [leaf_spot_advice])"

subsection \<open>\<open>external_products\<close>\<close>

definition fallback_products :: "ProductItem list" where
  "fallback_products =
     [\<lparr>name = ''Bio Neem Oil'', price = Some (Finite 12.99),
       ProductItem.url = Some ''https://example.com/neem'',
       ProductItem.image =
         Some ''https://images.unsplash.com/photo-1524594081293-190a2fe0baae?q=80&w=400''\<rparr>,
      \<lparr>name = ''Copper Fungicide'', price = Some (Finite 18.49),
       ProductItem.url = Some ''https://example.com/copper'',
       ProductItem.image =
         Some ''https://images.unsplash.com/photo-1542291026-7eec264c27ff?q=80&w=400''\<rparr>]"

text \<open>The inner \<open>try\<close>: any exception of the conversion leaves \<open>price\<close> at \<open>None\<close>.\<close>

definition item_price :: "pylib \<Rightarrow> (string \<times> json) list \<Rightarrow> pyfloat option" where
  "item_price lib kvs =
     (if dget kvs ''price'' \<noteq> JNull
      then (case py_float lib (dget kvs ''price'') of Inl e \<Rightarrow> None | Inr f \<Rightarrow> Some f)
      else None)"

fun product_item :: "pylib \<Rightarrow> json \<Rightarrow> py_error + ProductItem" where
  "product_item lib (JDict kvs) =
     new_ProductItem lib (dget_default kvs ''name'' (JStr ''Product'')) (item_price lib kvs)
       (dget kvs ''url'') (dget kvs ''image'')"
| "product_item lib v = Inl AttributeError"

text \<open>
  The outer \<open>try\<close>: \<open>Inr (Some out)\<close> is the \<open>return out\<close> inside it, \<open>Inr None\<close> is
  leaving it without a return.
\<close>

definition products_try ::
  "pylib \<Rightarrow> upstream \<Rightarrow> string \<Rightarrow> py_error + ProductItem list option" where
  "products_try lib up d =
     (case get_products up d of
        Inl e \<Rightarrow> Inl e
      | Inr items \<Rightarrow>
          (case items of
             JList its \<Rightarrow>
               (case append_each (product_item lib) its [] of
                  Inl e \<Rightarrow> Inl e
                | Inr out \<Rightarrow> Inr (Some out))
           | _ \<Rightarrow> Inr None))"

definition external_products :: "pylib \<Rightarrow> upstream \<Rightarrow> string \<Rightarrow> ProductItem list" where
  "external_products lib up d =
     (case products_try lib up d of
        Inr (Some out) \<Rightarrow> out
      | _ \<Rightarrow> fallback_products)"

subsection \<open>\<open>external_tutorials\<close>\<close>

definition mock_tutorials :: "string \<Rightarrow> TutorialItem list" where
  "mock_tutorials d =
     [\<lparr>title = ''How to treat '' @ d, videoId = Some ''dQw4w9WgXcQ'',
       thumbnail = Some ''https://img.youtube.com/vi/dQw4w9WgXcQ/hqdefault.jpg'',
       url = Some ''https://www.youtube.com/watch?v=dQw4w9WgXcQ''\<rparr>,
      \<lparr>title = ''Preventing '' @ d @ '' in your garden'', videoId = Some ''9bZkp7q19f0'',
       thumbnail = Some ''https://img.youtube.com/vi/9bZkp7q19f0/hqdefault.jpg'',
       url = Some ''https://www.youtube.com/watch?v=9bZkp7q19f0''\<rparr>]"

fun tutorial_item :: "pylib \<Rightarrow> json \<Rightarrow> py_error + TutorialItem" where
  "tutorial_item lib (JDict kvs) =
     new_TutorialItem lib (dget_default kvs ''title'' (JStr ''Tutorial'')) (dget kvs ''videoId'')
       (dget kvs ''thumbnail'') (dget kvs ''url'')"
| "tutorial_item lib v = Inl AttributeError"

definition tutorials_try ::
  "pylib \<Rightarrow> upstream \<Rightarrow> string \<Rightarrow> py_error + TutorialItem list option" where
  "tutorials_try lib up d =
     (case get_tutorials up d of
        Inl e \<Rightarrow> Inl e
      | Inr items \<Rightarrow>
          (case items of
             JList its \<Rightarrow>
               (case append_each (tutorial_item lib) its [] of
                  Inl e \<Rightarrow> Inl e
                | Inr out \<Rightarrow> Inr (Some out))
           | _ \<Rightarrow> Inr None))"

definition external_tutorials :: "pylib \<Rightarrow> upstream \<Rightarrow> string \<Rightarrow> TutorialItem list" where
  "external_tutorials lib up d =
     (case tutorials_try lib up d of
        Inr (Some out) \<Rightarrow> out
      | _ \<Rightarrow> mock_tutorials d)"

section \<open>Routes\<close>

definition predict :: "pylib \<Rightarrow> upstream \<Rightarrow> PredictRequest \<Rightarrow> py_error + PredictResponse" where
  "predict lib up req = external_predict lib up (PredictRequest.image req)"

text \<open>
  The best-effort insert of \<open>analyze\<close>: nothing happens without a store, and an exception
  of \<open>create_document\<close> is dropped. Only the store changes.
\<close>

definition persist :: "'s database option \<Rightarrow> 's \<Rightarrow> PredictResponse \<Rightarrow> 's" where
  "persist db s r =
     (case db of
        None \<Rightarrow> s
      | Some d \<Rightarrow>
          snd (create_document d ''analysis''
                 [(''disease'', JStr (disease r)),
                  (''confidence'', JFloat (confidence r)),
                  (''organ'', (case organ r of None \<Rightarrow> JNull | Some x \<Rightarrow> JStr x)),
                  (''severity'', (case severity r of None \<Rightarrow> JNull | Some x \<Rightarrow> JStr x))] s))"

definition analyze ::
  "pylib \<Rightarrow> upstream \<Rightarrow> 's database option \<Rightarrow> 's \<Rightarrow> PredictRequest
     \<Rightarrow> py_error + AnalyzeResponse \<times> 's" where
  "analyze lib up db s req =
     (case external_predict lib up (PredictRequest.image req) of
        Inl e \<Rightarrow> Inl e
      | Inr r \<Rightarrow>
          Inr (\<lparr>result = r,
                treatments = external_treatments lib up (disease r),
                products = external_products lib up (disease r),
                tutorials = external_tutorials lib up (disease r)\<rparr>,
               persist db s r))"

definition mock_recent :: "(string \<times> json) list list" where
  "mock_recent =
     [[(''disease'', JStr ''Leaf Blight''), (''confidence'', JFloat (Finite 0.87)),
       (''severity'', JStr ''high'')],
      [(''disease'', JStr ''Powdery Mildew''), (''confidence'', JFloat (Finite 0.76)),
       (''severity'', JStr ''medium'')],
      [(''disease'', JStr ''Rust''), (''confidence'', JFloat (Finite 0.63)),
       (''severity'', JStr ''medium'')],
      [(''disease'', JStr ''Healthy''), (''confidence'', JFloat (Finite 0.94)),
       (''severity'', JStr ''low'')]]"

fun recent_item :: "json \<Rightarrow> py_error + (string \<times> json) list" where
  "recent_item (JDict kvs) =
     Inr [(''disease'', dget kvs ''disease''), (''confidence'', dget kvs ''confidence''),
          (''severity'', dget kvs ''severity'')]"
| "recent_item v = Inl AttributeError"

definition recent_try :: "'s database \<Rightarrow> 's \<Rightarrow> int \<Rightarrow> py_error + (string \<times> json) list list" where
  "recent_try d s limit =
     (case find_recent d limit s of
        Inl e \<Rightarrow> Inl e
      | Inr docs \<Rightarrow> append_each recent_item docs [])"

definition recent :: "'s database option \<Rightarrow> 's \<Rightarrow> int \<Rightarrow> (string \<times> json) list list" where
  "recent db s limit =
     (case db of
        None \<Rightarrow> mock_recent
      | Some d \<Rightarrow>
          (case recent_try d s limit of
             Inr out \<Rightarrow> out
           | Inl e \<Rightarrow> mock_recent))"

section \<open>Inputs used for evaluation\<close>

text \<open>
  A library that converts no str and no large int and coerces nothing, and an upstream
  service whose every call fails.
\<close>

definition strict_lib :: pylib where
  "strict_lib =
     \<lparr>float_of_str = (\<lambda>s. None), float_of_big_int = (\<lambda>n. None), str_coerce = (\<lambda>v. None)\<rparr>"

definition unreachable :: upstream where
  "unreachable =
     \<lparr>post_predict = (\<lambda>x. Inl RequestException),
      get_treatments = (\<lambda>x. Inl RequestException),
      get_products = (\<lambda>x. Inl RequestException),
      get_tutorials = (\<lambda>x. Inl RequestException)\<rparr>"

text \<open>An upstream service that answers each of the four calls with a fixed body.\<close>

definition replying :: "json \<Rightarrow> json \<Rightarrow> json \<Rightarrow> json \<Rightarrow> upstream" where
  "replying p t pr tu =
     \<lparr>post_predict = (\<lambda>x. Inr p), get_treatments = (\<lambda>x. Inr t),
      get_products = (\<lambda>x. Inr pr), get_tutorials = (\<lambda>x. Inr tu)\<rparr>"

definition rust_07 :: json where
  "rust_07 = JDict [(''disease'', JStr ''Rust''), (''confidence'', JFloat (Finite 0.7))]"

text \<open>A store whose every operation raises.\<close>

definition failing_store :: "unit database" where
  "failing_store =
     \<lparr>create_document = (\<lambda>c doc s. (Some StoreError, s)),
      find_recent = (\<lambda>limit s. Inl StoreError)\<rparr>"

text \<open>Two upstream items: one with an empty \<open>prevention\<close>, one with a negative price.\<close>

definition stale_prevention :: "(string \<times> json) list" where
  "stale_prevention =
     [(''symptoms'', JStr ''Orange pustules''), (''prevention'', JStr ''''),
      (''preventive'', JStr ''Rotate crops'')]"

definition sulfur_dust :: "(string \<times> json) list" where
  "sulfur_dust = [(''name'', JStr ''Sulfur dust''), (''price'', JFloat (Finite (- 5)))]"

text \<open>The data model's condition on a product: its price is absent or at least zero.\<close>

definition price_nonneg :: "ProductItem \<Rightarrow> bool" where
  "price_nonneg p = (case price p of None \<Rightarrow> True | Some f \<Rightarrow> float_le (Finite 0) f)"

section \<open>The loop\<close>

lemma append_each_acc:
  "append_each f xs out = Inr res \<Longrightarrow>
     \<exists>ys. res = out @ ys \<and> list_all2 (\<lambda>x y. f x = Inr y) xs ys"
proof (induction xs arbitrary: out)
  case Nil
  then show ?case by simp
next
  case (Cons x xs)
  from Cons.prems obtain y where fx: "f x = Inr y"
    and rest: "append_each f xs (out @ [y]) = Inr res"
    by (auto split: sum.splits)
  from Cons.IH [OF rest] obtain ys where "res = (out @ [y]) @ ys"
    and "list_all2 (\<lambda>x y. f x = Inr y) xs ys" by blast
  with fx have "res = out @ (y # ys) \<and> list_all2 (\<lambda>x y. f x = Inr y) (x # xs) (y # ys)"
    by simp
  then show ?case by blast
qed

lemma append_each_empty:
  "append_each f xs [] = Inr res \<Longrightarrow> list_all2 (\<lambda>x y. f x = Inr y) xs res"
  using append_each_acc [of f xs "[]" res] by simp

lemma append_each_maps:
  "list_all2 (\<lambda>x y. f x = Inr y) xs ys \<Longrightarrow> append_each f xs out = Inr (out @ ys)"
proof (induction xs arbitrary: ys out)
  case Nil
  then show ?case by simp
next
  case (Cons x xs)
  from Cons.prems obtain y ys' where ys: "ys = y # ys'" and fx: "f x = Inr y"
    and rest: "list_all2 (\<lambda>x y. f x = Inr y) xs ys'"
    by (auto simp: list_all2_Cons1)
  from Cons.IH [OF rest, of "out @ [y]"] fx ys show ?case by simp
qed

lemma append_each_fails:
  "list_ex (\<lambda>x. isl (f x)) xs \<Longrightarrow> isl (append_each f xs out)"
proof (induction xs arbitrary: out)
  case Nil
  then show ?case by simp
next
  case (Cons x xs)
  show ?case
  proof (cases "f x")
    case (Inl e)
    then show ?thesis by simp
  next
    case (Inr y)
    with Cons.prems have "list_ex (\<lambda>x. isl (f x)) xs" by simp
    from Cons.IH [OF this, of "out @ [y]"] Inr show ?thesis by simp
  qed
qed

section \<open>Severity\<close>

lemma external_predict_severity:
  "external_predict lib up img = Inr r \<Longrightarrow> severity r = Some (severity_of (confidence r))"
  by (auto simp: external_predict_def new_PredictResponse_def split: sum.splits prod.splits)

text \<open>
  C1, as stated, fails at NaN: \<open>float("nan") > 0.85\<close> and \<open>float("nan") > 0.6\<close> are both
  false, so the severity is low, while \<open>float("nan") <= 0.6\<close> is false too. An upstream
  confidence of \<open>"nan"\<close> or of the JSON literal \<open>NaN\<close> reaches this.
\<close>

theorem severity_nan_counterexample:
  "\<not> (severity_of NaN = ''low'' \<longleftrightarrow> float_le NaN (Finite 0.6))"
  by (simp add: severity_of_def)

text \<open>
  C1, amended: for every confidence other than NaN the severity is high exactly when
  \<open>c > 0.85\<close>, medium exactly when \<open>0.6 < c <= 0.85\<close>, and low exactly when \<open>c <= 0.6\<close>;
  NaN gives low; 0.6 gives low and 0.85 gives medium; and the severity of every record that
  \<open>external_predict\<close> returns is this function of the record's confidence, whatever the
  upstream payload holds.
\<close>

theorem severity_thresholds:
  "(c \<noteq> NaN \<longrightarrow>
      (severity_of c = ''high'' \<longleftrightarrow> float_gt c (Finite 0.85)) \<and>
      (severity_of c = ''medium'' \<longleftrightarrow> float_gt c (Finite 0.6) \<and> float_le c (Finite 0.85)) \<and>
      (severity_of c = ''low'' \<longleftrightarrow> float_le c (Finite 0.6))) \<and>
   severity_of NaN = ''low'' \<and>
   severity_of (Finite 0.6) = ''low'' \<and>
   severity_of (Finite 0.85) = ''medium'' \<and>
   (external_predict lib up img = Inr r \<longrightarrow> severity r = Some (severity_of (confidence r)))"
proof -
  have a: "c \<noteq> NaN \<longrightarrow>
      (severity_of c = ''high'' \<longleftrightarrow> float_gt c (Finite 0.85)) \<and>
      (severity_of c = ''medium'' \<longleftrightarrow> float_gt c (Finite 0.6) \<and> float_le c (Finite 0.85)) \<and>
      (severity_of c = ''low'' \<longleftrightarrow> float_le c (Finite 0.6))"
    by (cases c) (auto simp: severity_of_def)
  have b: "severity_of NaN = ''low''" "severity_of (Finite 0.6) = ''low''"
    "severity_of (Finite 0.85) = ''medium''"
    by (simp_all add: severity_of_def)
  from a b external_predict_severity [of lib up img r] show ?thesis by blast
qed

theorem severity_thresholds_witness:
  "Finite 0.9 \<noteq> NaN \<and> severity_of (Finite 0.9) = ''high'' \<and>
   float_gt (Finite 0.9) (Finite 0.85) \<and>
   external_predict strict_lib unreachable ''ZmFrZQ=='' =
     Inr \<lparr>disease = ''Leaf Blight'', confidence = Finite 0.87, organ = Some ''leaf'',
          severity = Some ''high''\<rparr> \<and>
   Some ''high'' = Some (severity_of (Finite 0.87))"
  using severity_thresholds [of "Finite 0.9" strict_lib unreachable "''ZmFrZQ==''"
    "\<lparr>disease = ''Leaf Blight'', confidence = Finite 0.87, organ = Some ''leaf'',
      severity = Some ''high''\<rparr>"]
  by (simp add: external_predict_def predict_try_def unreachable_def new_PredictResponse_def
      severity_of_def)

section \<open>\<open>external_predict\<close>: fallback and validation\<close>

text \<open>
  Whenever the \<open>try\<close> is left by an exception (the call failed, the body is not a dict,
  the confidence does not convert), the fixed record comes back.
\<close>

lemma external_predict_fallback:
  "predict_try lib up img = Inl e \<Longrightarrow>
   external_predict lib up img =
     Inr \<lparr>disease = ''Leaf Blight'', confidence = Finite 0.87, organ = Some ''leaf'',
          severity = Some ''high''\<rparr>"
  by (simp add: external_predict_def new_PredictResponse_def severity_of_def)

lemma predict_try_failures:
  "(post_predict up img = Inl e \<longrightarrow> predict_try lib up img = Inl e) \<and>
   (post_predict up img = Inr (JDict kvs) \<and>
      py_float lib (dget_default kvs ''confidence'' (JFloat (Finite 0.5))) = Inl e \<longrightarrow>
      predict_try lib up img = Inl e)"
  by (auto simp: predict_try_def)

text \<open>
  The record is built after the \<open>try\<close>, so its validation is not covered by the handler:
  \<open>external_predict\<close> raises exactly when the call succeeded, the confidence converted,
  and the upstream \<open>disease\<close> is rejected by the \<open>str\<close> field.
\<close>

lemma external_predict_raises_iff:
  "external_predict lib up img = Inl e \<longleftrightarrow>
     (\<exists>kvs c. post_predict up img = Inr (JDict kvs) \<and>
        py_float lib (dget_default kvs ''confidence'' (JFloat (Finite 0.5))) = Inr c \<and>
        validate_str lib (dget_default kvs ''disease'' (JStr ''Unknown'')) = Inl e)"
proof (cases "predict_try lib up img")
  case (Inl x)
  then have "external_predict lib up img \<noteq> Inl e"
    by (simp add: external_predict_fallback)
  moreover from Inl have "\<not> (\<exists>kvs c. post_predict up img = Inr (JDict kvs) \<and>
        py_float lib (dget_default kvs ''confidence'' (JFloat (Finite 0.5))) = Inr c \<and>
        validate_str lib (dget_default kvs ''disease'' (JStr ''Unknown'')) = Inl e)"
    by (auto simp: predict_try_def)
  ultimately show ?thesis by blast
next
  case (Inr dc)
  then obtain kvs where p: "post_predict up img = Inr (JDict kvs)"
    and dc: "predict_data lib (JDict kvs) = Inr dc"
    by (cases "post_predict up img"; cases "projr (post_predict up img)")
       (auto simp: predict_try_def)
  then show ?thesis using Inr
    by (auto simp: external_predict_def new_PredictResponse_def split: sum.splits prod.splits)
qed

text \<open>
  C2: \<open>predict\<close> is claimed never to raise. With an upstream answer
  \<open>{"disease": null, "confidence": 0.9}\<close> it raises the ValidationError of
  \<open>PredictResponse(disease=None, ...)\<close>.
\<close>

theorem predict_raises_on_null_disease:
  "predict strict_lib
     (replying (JDict [(''disease'', JNull), (''confidence'', JFloat (Finite 0.9))])
        (JList []) (JList []) (JList []))
     \<lparr>PredictRequest.image = ''ZmFrZQ==''\<rparr>
   = Inl ValidationError"
  by (simp add: predict_def external_predict_def predict_try_def replying_def
      new_PredictResponse_def dget_default_def)

section \<open>\<open>external_treatments\<close>\<close>

lemma treatments_try_list:
  "get_treatments up d = Inr (JList its) \<Longrightarrow>
   treatments_try lib up d = append_each (treatment_item lib) its []"
  by (simp add: treatments_try_def)

lemma treatments_try_not_list:
  "get_treatments up d = Inr v \<Longrightarrow> \<forall>its. v \<noteq> JList its \<Longrightarrow>
   treatments_try lib up d = Inr [leaf_spot_advice]"
  by (cases v) (simp_all add: treatments_try_def)

lemma treatments_try_failed:
  "get_treatments up d = Inl e \<Longrightarrow> treatments_try lib up d = Inl e"
  by (simp add: treatments_try_def)

lemma external_treatments_list:
  assumes "get_treatments up d = Inr (JList its)"
  shows "external_treatments lib up d = [leaf_spot_advice] \<or>
         list_all2 (\<lambda>it t. treatment_item lib it = Inr t) its (external_treatments lib up d)"
proof (cases "append_each (treatment_item lib) its []")
  case (Inl e)
  with assms show ?thesis
    by (simp add: external_treatments_def treatments_try_list)
next
  case (Inr out)
  from append_each_empty [OF Inr] Inr assms show ?thesis
    by (simp add: external_treatments_def treatments_try_list)
qed

lemma external_treatments_empty_iff:
  "external_treatments lib up d = [] \<longleftrightarrow> get_treatments up d = Inr (JList [])"
proof (cases "get_treatments up d")
  case (Inl e)
  then show ?thesis by (simp add: external_treatments_def treatments_try_failed)
next
  case (Inr v)
  show ?thesis
  proof (cases "\<exists>its. v = JList its")
    case True
    then obtain its where v: "v = JList its" by blast
    with Inr have g: "get_treatments up d = Inr (JList its)" by simp
    show ?thesis
    proof (cases its)
      case Nil
      with g show ?thesis by (simp add: external_treatments_def treatments_try_list)
    next
      case (Cons a as)
      from external_treatments_list [OF g, of lib] Cons g show ?thesis
        by (auto simp: list_all2_Cons1)
    qed
  next
    case False
    with Inr show ?thesis
      by (auto simp: external_treatments_def treatments_try_not_list)
  qed
qed

lemma external_treatments_mapped:
  assumes "get_treatments up d = Inr (JList its)"
    and "list_all2 (\<lambda>it t. treatment_item lib it = Inr t) its ts"
  shows "external_treatments lib up d = ts"
  using assms append_each_maps [of "treatment_item lib" its ts "[]"]
  by (simp add: external_treatments_def treatments_try_list)

lemma external_treatments_unmapped:
  assumes "get_treatments up d = Inr (JList its)"
    and "list_ex (\<lambda>it. isl (treatment_item lib it)) its"
  shows "external_treatments lib up d = [leaf_spot_advice]"
proof -
  from append_each_fails [OF assms(2), of "[]"]
  obtain e where "append_each (treatment_item lib) its [] = Inl e"
    by (cases "append_each (treatment_item lib) its []") auto
  with assms(1) show ?thesis
    by (simp add: external_treatments_def treatments_try_list)
qed

text \<open>
  C3, as stated, fails: a successful answer that is the empty list goes through the loop
  with nothing appended, and the empty \<open>out\<close> is returned.
\<close>

theorem treatments_empty_counterexample:
  "external_treatments strict_lib (replying rust_07 (JList []) (JList []) (JList [])) ''Rust'' = []"
  by (simp add: external_treatments_def treatments_try_def replying_def)

text \<open>
  C3, amended: \<open>external_treatments\<close> always returns a sequence (it has no raising
  path). When the call fails, or the answer is not a list, or the answer is a list with
  an element that cannot be mapped, the result is exactly the one leaf-spot record; when
  the answer is a list whose elements all map, the result is the list of their records,
  one per element and in order; and the result is empty exactly when the answer is the
  empty list.
\<close>

theorem treatments_fallback_or_mapped:
  "(get_treatments up d = Inl e \<longrightarrow> external_treatments lib up d = [leaf_spot_advice]) \<and>
   (get_treatments up d = Inr v \<and> (\<forall>its. v \<noteq> JList its) \<longrightarrow>
      external_treatments lib up d = [leaf_spot_advice]) \<and>
   (get_treatments up d = Inr (JList its) \<and>
    list_ex (\<lambda>it. isl (treatment_item lib it)) its \<longrightarrow>
      external_treatments lib up d = [leaf_spot_advice]) \<and>
   (get_treatments up d = Inr (JList its) \<and>
    list_all2 (\<lambda>it t. treatment_item lib it = Inr t) its ts \<longrightarrow>
      external_treatments lib up d = ts) \<and>
   (external_treatments lib up d = [] \<longleftrightarrow> get_treatments up d = Inr (JList [])) \<and>
   leaf_spot_advice =
     \<lparr>symptoms = Some ''Spots and lesions on leaves'',
      organic = Some ''Neem oil spray weekly'',
      chemical = Some ''Copper-based fungicide as directed'',
      prevention = Some ''Ensure proper spacing and airflow''\<rparr>"
proof -
  have a: "get_treatments up d = Inl e \<longrightarrow> external_treatments lib up d = [leaf_spot_advice]"
    by (simp add: external_treatments_def treatments_try_failed)
  have b: "get_treatments up d = Inr v \<and> (\<forall>its. v \<noteq> JList its) \<longrightarrow>
      external_treatments lib up d = [leaf_spot_advice]"
    by (auto simp: external_treatments_def treatments_try_not_list)
  have c: "get_treatments up d = Inr (JList its) \<and>
    list_ex (\<lambda>it. isl (treatment_item lib it)) its \<longrightarrow>
      external_treatments lib up d = [leaf_spot_advice]"
    using external_treatments_unmapped by blast
  have m: "get_treatments up d = Inr (JList its) \<and>
    list_all2 (\<lambda>it t. treatment_item lib it = Inr t) its ts \<longrightarrow>
      external_treatments lib up d = ts"
    using external_treatments_mapped by blast
  from a b c m external_treatments_empty_iff [of lib up d] leaf_spot_advice_def
  show ?thesis by blast
qed

theorem treatments_fallback_or_mapped_witness:
  "(get_treatments unreachable ''Rust'' = Inl RequestException \<and>
    external_treatments strict_lib unreachable ''Rust'' = [leaf_spot_advice]) \<and>
   (get_treatments (replying rust_07 JNull JNull JNull) ''Rust'' = Inr JNull \<and>
    (\<forall>its. JNull \<noteq> JList its) \<and>
    external_treatments strict_lib (replying rust_07 JNull JNull JNull) ''Rust''
      = [leaf_spot_advice]) \<and>
   (get_treatments (replying rust_07 (JList [JDict stale_prevention, JInt 3]) JNull JNull) ''Rust''
      = Inr (JList [JDict stale_prevention, JInt 3]) \<and>
    list_ex (\<lambda>it. isl (treatment_item strict_lib it)) [JDict stale_prevention, JInt 3] \<and>
    external_treatments strict_lib
      (replying rust_07 (JList [JDict stale_prevention, JInt 3]) JNull JNull) ''Rust''
      = [leaf_spot_advice]) \<and>
   (get_treatments (replying rust_07 (JList [JDict stale_prevention]) JNull JNull) ''Rust''
      = Inr (JList [JDict stale_prevention]) \<and>
    list_all2 (\<lambda>it t. treatment_item strict_lib it = Inr t) [JDict stale_prevention]
      [\<lparr>symptoms = Some ''Orange pustules'', organic = None, chemical = None,
        prevention = Some ''Rotate crops''\<rparr>] \<and>
    external_treatments strict_lib (replying rust_07 (JList [JDict stale_prevention]) JNull JNull)
       ''Rust''
      = [\<lparr>symptoms = Some ''Orange pustules'', organic = None, chemical = None,
           prevention = Some ''Rotate crops''\<rparr>]) \<and>
   (get_treatments (replying rust_07 (JList []) JNull JNull) ''Rust'' = Inr (JList []) \<and>
    external_treatments strict_lib (replying rust_07 (JList []) JNull JNull) ''Rust'' = [])"
proof -
  let ?t = "\<lparr>symptoms = Some ''Orange pustules'', organic = None, chemical = None,
        prevention = Some ''Rotate crops''\<rparr>"
  have h1: "get_treatments unreachable ''Rust'' = Inl RequestException"
    by (simp add: unreachable_def)
  have h2: "get_treatments (replying rust_07 JNull JNull JNull) ''Rust'' = Inr JNull"
    by (simp add: replying_def)
  have h2': "\<forall>its. JNull \<noteq> JList its" by simp
  have h3: "get_treatments (replying rust_07 (JList [JDict stale_prevention]) JNull JNull) ''Rust''
      = Inr (JList [JDict stale_prevention])"
    by (simp add: replying_def)
  have i: "treatment_item strict_lib (JDict stale_prevention) = Inr ?t"
    by (simp add: stale_prevention_def new_TreatmentItem_def dget_def dget_default_def py_or_def)
  from i have h3': "list_all2 (\<lambda>it t. treatment_item strict_lib it = Inr t)
      [JDict stale_prevention] [?t]"
    by simp
  have h4: "get_treatments (replying rust_07 (JList []) JNull JNull) ''Rust'' = Inr (JList [])"
    by (simp add: replying_def)
  have h5: "get_treatments (replying rust_07 (JList [JDict stale_prevention, JInt 3]) JNull JNull)
      ''Rust'' = Inr (JList [JDict stale_prevention, JInt 3])"
    by (simp add: replying_def)
  have h5': "list_ex (\<lambda>it. isl (treatment_item strict_lib it)) [JDict stale_prevention, JInt 3]"
    by simp
  note t1 = treatments_fallback_or_mapped
    [of unreachable "''Rust''" RequestException strict_lib JNull "[]" "[]"]
  note t2 = treatments_fallback_or_mapped
    [of "replying rust_07 JNull JNull JNull" "''Rust''" RequestException strict_lib JNull "[]" "[]"]
  note t3 = treatments_fallback_or_mapped
    [of "replying rust_07 (JList [JDict stale_prevention]) JNull JNull" "''Rust''" RequestException
      strict_lib JNull "[JDict stale_prevention]" "[?t]"]
  note t4 = treatments_fallback_or_mapped
    [of "replying rust_07 (JList []) JNull JNull" "''Rust''" RequestException strict_lib JNull
      "[]" "[]"]
  note t5 = treatments_fallback_or_mapped
    [of "replying rust_07 (JList [JDict stale_prevention, JInt 3]) JNull JNull" "''Rust''"
      RequestException strict_lib JNull "[JDict stale_prevention, JInt 3]" "[]"]
  from t1 h1 have c1: "external_treatments strict_lib unreachable ''Rust'' = [leaf_spot_advice]"
    by blast
  from t2 h2 h2' have c2:
    "external_treatments strict_lib (replying rust_07 JNull JNull JNull) ''Rust''
      = [leaf_spot_advice]"
    by blast
  from t3 h3 h3' have c3:
    "external_treatments strict_lib (replying rust_07 (JList [JDict stale_prevention]) JNull JNull)
       ''Rust'' = [?t]"
    by blast
  from t4 h4 have c4:
    "external_treatments strict_lib (replying rust_07 (JList []) JNull JNull) ''Rust'' = []"
    by blast
  from t5 h5 h5' have c5:
    "external_treatments strict_lib
      (replying rust_07 (JList [JDict stale_prevention, JInt 3]) JNull JNull) ''Rust''
      = [leaf_spot_advice]"
    by blast
  from h1 h2 h2' h3 h3' h4 h5 h5' c1 c2 c3 c4 c5 show ?thesis by blast
qed

lemma treatment_item_prevention:
  "treatment_item lib it = Inr t \<Longrightarrow>
   \<exists>kvs. it = JDict kvs \<and>
     validate_opt_str lib
       (if truthy (dget kvs ''prevention'') then dget kvs ''prevention''
        else dget kvs ''preventive'') = Inr (prevention t)"
  by (cases it) (auto simp: new_TreatmentItem_def py_or_def split: sum.splits)

text \<open>
  C6, as stated, fails: \<open>or\<close> tests truth, not \<open>None\<close>. An item whose \<open>prevention\<close>
  is the empty string, present and not null, gets the value of \<open>preventive\<close>.
\<close>

theorem prevention_empty_string_counterexample:
  "dget stale_prevention ''prevention'' = JStr '''' \<and>
   JStr '''' \<noteq> JNull \<and>
   map prevention
     (external_treatments strict_lib (replying rust_07 (JList [JDict stale_prevention]) JNull JNull)
        ''Rust'')
   = [Some ''Rotate crops'']"
  by (simp add: external_treatments_def treatments_try_def replying_def stale_prevention_def
      new_TreatmentItem_def dget_def dget_default_def py_or_def)

text \<open>
  C6, amended: when the answer is a list and every element maps, each element is a dict
  and the \<open>prevention\<close> field of its record is the validated value of the \<open>prevention\<close>
  key when that value is truthy (present, not null, not empty), and of the \<open>preventive\<close>
  key (null when absent) otherwise.
\<close>

theorem prevention_first_truthy:
  "get_treatments up d = Inr (JList its) \<and> treatments_try lib up d = Inr out \<longrightarrow>
     external_treatments lib up d = out \<and>
     list_all2
       (\<lambda>it t. \<exists>kvs. it = JDict kvs \<and>
          validate_opt_str lib
            (if truthy (dget kvs ''prevention'') then dget kvs ''prevention''
             else dget kvs ''preventive'') = Inr (prevention t))
       its out"
proof (intro impI, elim conjE)
  assume g: "get_treatments up d = Inr (JList its)" and t: "treatments_try lib up d = Inr out"
  from g t have "append_each (treatment_item lib) its [] = Inr out"
    by (simp add: treatments_try_list)
  from append_each_empty [OF this]
  have "list_all2 (\<lambda>it t. treatment_item lib it = Inr t) its out" .
  then have "list_all2
       (\<lambda>it t. \<exists>kvs. it = JDict kvs \<and>
          validate_opt_str lib
            (if truthy (dget kvs ''prevention'') then dget kvs ''prevention''
             else dget kvs ''preventive'') = Inr (prevention t))
       its out"
    by (rule list_all2_mono) (rule treatment_item_prevention)
  with t show "external_treatments lib up d = out \<and>
     list_all2
       (\<lambda>it t. \<exists>kvs. it = JDict kvs \<and>
          validate_opt_str lib
            (if truthy (dget kvs ''prevention'') then dget kvs ''prevention''
             else dget kvs ''preventive'') = Inr (prevention t))
       its out"
    by (simp add: external_treatments_def)
qed

theorem prevention_first_truthy_witness:
  "get_treatments (replying rust_07 (JList [JDict stale_prevention]) JNull JNull) ''Rust''
     = Inr (JList [JDict stale_prevention]) \<and>
   treatments_try strict_lib (replying rust_07 (JList [JDict stale_prevention]) JNull JNull) ''Rust''
     = Inr [\<lparr>symptoms = Some ''Orange pustules'', organic = None, chemical = None,
              prevention = Some ''Rotate crops''\<rparr>] \<and>
   external_treatments strict_lib (replying rust_07 (JList [JDict stale_prevention]) JNull JNull)
      ''Rust''
     = [\<lparr>symptoms = Some ''Orange pustules'', organic = None, chemical = None,
          prevention = Some ''Rotate crops''\<rparr>]"
proof -
  let ?up = "replying rust_07 (JList [JDict stale_prevention]) JNull JNull"
  let ?out = "[\<lparr>symptoms = Some ''Orange pustules'', organic = None, chemical = None,
              prevention = Some ''Rotate crops''\<rparr>]"
  have h1: "get_treatments ?up ''Rust'' = Inr (JList [JDict stale_prevention])"
    by (simp add: replying_def)
  have h2: "treatments_try strict_lib ?up ''Rust'' = Inr ?out"
    by (simp add: treatments_try_def replying_def stale_prevention_def new_TreatmentItem_def
        dget_def dget_default_def py_or_def)
  from h1 h2 prevention_first_truthy
    [of ?up "''Rust''" "[JDict stale_prevention]" strict_lib ?out]
  have "external_treatments strict_lib ?up ''Rust'' = ?out" by blast
  with h1 h2 show ?thesis by blast
qed

section \<open>\<open>external_products\<close>\<close>

lemma products_try_list:
  "get_products up d = Inr (JList its) \<Longrightarrow>
   products_try lib up d =
     (case append_each (product_item lib) its [] of Inl e \<Rightarrow> Inl e | Inr out \<Rightarrow> Inr (Some out))"
  by (simp add: products_try_def)

lemma products_try_not_list:
  "get_products up d = Inr v \<Longrightarrow> \<forall>its. v \<noteq> JList its \<Longrightarrow> products_try lib up d = Inr None"
  by (cases v) (simp_all add: products_try_def)

lemma products_try_failed:
  "get_products up d = Inl e \<Longrightarrow> products_try lib up d = Inl e"
  by (simp add: products_try_def)

lemma fallback_products_not_empty: "fallback_products \<noteq> []"
  by (simp add: fallback_products_def)

lemma external_products_list:
  assumes "get_products up d = Inr (JList its)"
  shows "external_products lib up d = fallback_products \<or>
         list_all2 (\<lambda>it p. product_item lib it = Inr p) its (external_products lib up d)"
proof (cases "append_each (product_item lib) its []")
  case (Inl e)
  with assms show ?thesis
    by (simp add: external_products_def products_try_list)
next
  case (Inr out)
  from append_each_empty [OF Inr] Inr assms show ?thesis
    by (simp add: external_products_def products_try_list)
qed

lemma external_products_cases:
  "external_products lib up d = fallback_products \<or>
   (\<exists>its. get_products up d = Inr (JList its) \<and>
      list_all2 (\<lambda>it p. product_item lib it = Inr p) its (external_products lib up d))"
proof (cases "get_products up d")
  case (Inl e)
  then show ?thesis by (simp add: external_products_def products_try_failed)
next
  case (Inr v)
  show ?thesis
  proof (cases "\<exists>its. v = JList its")
    case True
    with Inr external_products_list [of up d _ lib] show ?thesis by blast
  next
    case False
    with Inr show ?thesis by (simp add: external_products_def products_try_not_list)
  qed
qed

lemma external_products_empty_iff:
  "external_products lib up d = [] \<longleftrightarrow> get_products up d = Inr (JList [])"
proof
  assume e: "external_products lib up d = []"
  with external_products_cases [of lib up d] fallback_products_not_empty
  obtain its where "get_products up d = Inr (JList its)"
    and "list_all2 (\<lambda>it p. product_item lib it = Inr p) its []"
    by auto
  then show "get_products up d = Inr (JList [])" by simp
next
  assume "get_products up d = Inr (JList [])"
  then show "external_products lib up d = []"
    by (simp add: external_products_def products_try_list)
qed

lemma product_item_price:
  "product_item lib it = Inr p \<Longrightarrow> \<exists>kvs. it = JDict kvs \<and> price p = item_price lib kvs"
  by (cases it) (auto simp: new_ProductItem_def split: sum.splits)

text \<open>
  C4: a successful answer that is the empty list gives the empty sequence; a failed call
  and an answer that is not a list give exactly the two fixed products; the two results
  differ.
\<close>

theorem products_empty_versus_fallback:
  "(get_products up d = Inr (JList []) \<longrightarrow> external_products lib up d = []) \<and>
   (get_products up d = Inl e \<longrightarrow> external_products lib up d = fallback_products) \<and>
   (get_products up d = Inr v \<and> (\<forall>its. v \<noteq> JList its) \<longrightarrow>
      external_products lib up d = fallback_products) \<and>
   fallback_products \<noteq> [] \<and>
   fallback_products =
     [\<lparr>name = ''Bio Neem Oil'', price = Some (Finite 12.99),
       ProductItem.url = Some ''https://example.com/neem'',
       ProductItem.image =
         Some ''https://images.unsplash.com/photo-1524594081293-190a2fe0baae?q=80&w=400''\<rparr>,
      \<lparr>name = ''Copper Fungicide'', price = Some (Finite 18.49),
       ProductItem.url = Some ''https://example.com/copper'',
       ProductItem.image =
         Some ''https://images.unsplash.com/photo-1542291026-7eec264c27ff?q=80&w=400''\<rparr>]"
proof -
  have a: "get_products up d = Inr (JList []) \<longrightarrow> external_products lib up d = []"
    by (simp add: external_products_empty_iff)
  have b: "get_products up d = Inl e \<longrightarrow> external_products lib up d = fallback_products"
    by (simp add: external_products_def products_try_failed)
  have c: "get_products up d = Inr v \<and> (\<forall>its. v \<noteq> JList its) \<longrightarrow>
      external_products lib up d = fallback_products"
    by (auto simp: external_products_def products_try_not_list)
  from a b c fallback_products_not_empty fallback_products_def show ?thesis by blast
qed

theorem products_empty_versus_fallback_witness:
  "(get_products (replying rust_07 JNull (JList []) JNull) ''Rust'' = Inr (JList []) \<and>
    external_products strict_lib (replying rust_07 JNull (JList []) JNull) ''Rust'' = []) \<and>
   (get_products unreachable ''Rust'' = Inl RequestException \<and>
    external_products strict_lib unreachable ''Rust'' = fallback_products) \<and>
   (get_products (replying rust_07 JNull (JDict []) JNull) ''Rust'' = Inr (JDict []) \<and>
    (\<forall>its. JDict [] \<noteq> JList its) \<and>
    external_products strict_lib (replying rust_07 JNull (JDict []) JNull) ''Rust''
      = fallback_products)"
proof -
  have h1: "get_products (replying rust_07 JNull (JList []) JNull) ''Rust'' = Inr (JList [])"
    by (simp add: replying_def)
  have h2: "get_products unreachable ''Rust'' = Inl RequestException"
    by (simp add: unreachable_def)
  have h3: "get_products (replying rust_07 JNull (JDict []) JNull) ''Rust'' = Inr (JDict [])"
    by (simp add: replying_def)
  have h3': "\<forall>its. JDict [] \<noteq> JList its" by simp
  from h1 products_empty_versus_fallback
    [of "replying rust_07 JNull (JList []) JNull" "''Rust''" strict_lib RequestException JNull]
  have c1: "external_products strict_lib (replying rust_07 JNull (JList []) JNull) ''Rust'' = []"
    by blast
  from h2 products_empty_versus_fallback
    [of unreachable "''Rust''" strict_lib RequestException JNull]
  have c2: "external_products strict_lib unreachable ''Rust'' = fallback_products"
    by blast
  from h3 h3' products_empty_versus_fallback
    [of "replying rust_07 JNull (JDict []) JNull" "''Rust''" strict_lib RequestException "JDict []"]
  have c3: "external_products strict_lib (replying rust_07 JNull (JDict []) JNull) ''Rust''
      = fallback_products"
    by blast
  from h1 h2 h3 h3' c1 c2 c3 show ?thesis by blast
qed

text \<open>
  C9, as stated, fails: the price of an item is converted with \<open>float\<close> and never
  compared with zero, so an upstream price of \<open>-5\<close> is returned as it is.
\<close>

theorem negative_price_counterexample:
  "\<not> list_all price_nonneg
       (external_products strict_lib (replying rust_07 JNull (JList [JDict sulfur_dust]) JNull) ''Rust'')"
  by (simp add: external_products_def products_try_def replying_def sulfur_dust_def
      new_ProductItem_def item_price_def dget_def dget_default_def price_nonneg_def)

text \<open>
  C9, amended: the result is the two fixed products, whose prices 12.99 and 18.49 are not
  negative, or it holds one product per element of the upstream list, and the price of
  each is null or whatever float \<open>float\<close> makes of the element's \<open>price\<close>, of any sign.
\<close>

theorem product_price_is_converted:
  "(external_products lib up d = fallback_products \<or>
    (\<exists>its. get_products up d = Inr (JList its) \<and>
       list_all2 (\<lambda>it p. \<exists>kvs. it = JDict kvs \<and> price p = item_price lib kvs) its
         (external_products lib up d))) \<and>
   (item_price lib kvs = None \<or>
    (\<exists>f. py_float lib (dget kvs ''price'') = Inr f \<and> item_price lib kvs = Some f)) \<and>
   list_all price_nonneg fallback_products \<and>
   map price fallback_products = [Some (Finite 12.99), Some (Finite 18.49)]"
proof -
  have a: "external_products lib up d = fallback_products \<or>
    (\<exists>its. get_products up d = Inr (JList its) \<and>
       list_all2 (\<lambda>it p. \<exists>kvs. it = JDict kvs \<and> price p = item_price lib kvs) its
         (external_products lib up d))"
    using external_products_cases [of lib up d]
    by (auto elim!: list_all2_mono dest: product_item_price)
  have b: "item_price lib kvs = None \<or>
    (\<exists>f. py_float lib (dget kvs ''price'') = Inr f \<and> item_price lib kvs = Some f)"
    by (auto simp: item_price_def split: sum.splits)
  have c: "list_all price_nonneg fallback_products"
    by (simp add: fallback_products_def price_nonneg_def)
  have d: "map price fallback_products = [Some (Finite 12.99), Some (Finite 18.49)]"
    by (simp add: fallback_products_def)
  from a b c d show ?thesis by blast
qed

theorem product_price_is_converted_witness:
  "item_price strict_lib sulfur_dust = Some (Finite (- 5)) \<and>
   py_float strict_lib (dget sulfur_dust ''price'') = Inr (Finite (- 5)) \<and>
   external_products strict_lib unreachable ''Rust'' = fallback_products"
proof -
  have h: "item_price strict_lib sulfur_dust = Some (Finite (- 5))"
    by (simp add: item_price_def sulfur_dust_def dget_def dget_default_def)
  from h product_price_is_converted [of strict_lib unreachable "''Rust''" sulfur_dust]
  have c: "py_float strict_lib (dget sulfur_dust ''price'') = Inr (Finite (- 5))"
    by auto
  have f: "external_products strict_lib unreachable ''Rust'' = fallback_products"
    by (simp add: external_products_def products_try_def unreachable_def)
  from h c f show ?thesis by blast
qed

section \<open>\<open>external_tutorials\<close>\<close>

lemma tutorials_try_list:
  "get_tutorials up d = Inr (JList its) \<Longrightarrow>
   tutorials_try lib up d =
     (case append_each (tutorial_item lib) its [] of Inl e \<Rightarrow> Inl e | Inr out \<Rightarrow> Inr (Some out))"
  by (simp add: tutorials_try_def)

lemma tutorials_try_not_list:
  "get_tutorials up d = Inr v \<Longrightarrow> \<forall>its. v \<noteq> JList its \<Longrightarrow> tutorials_try lib up d = Inr None"
  by (cases v) (simp_all add: tutorials_try_def)

lemma tutorials_try_failed:
  "get_tutorials up d = Inl e \<Longrightarrow> tutorials_try lib up d = Inl e"
  by (simp add: tutorials_try_def)

lemma mock_tutorials_not_empty: "mock_tutorials d \<noteq> []"
  by (simp add: mock_tutorials_def)

lemma external_tutorials_cases:
  "external_tutorials lib up d = mock_tutorials d \<or>
   (\<exists>its. get_tutorials up d = Inr (JList its) \<and>
      list_all2 (\<lambda>it t. tutorial_item lib it = Inr t) its (external_tutorials lib up d))"
proof (cases "get_tutorials up d")
  case (Inl e)
  then show ?thesis by (simp add: external_tutorials_def tutorials_try_failed)
next
  case (Inr v)
  show ?thesis
  proof (cases "\<exists>its. v = JList its")
    case True
    then obtain its where v: "v = JList its" by blast
    show ?thesis
    proof (cases "append_each (tutorial_item lib) its []")
      case (Inl e)
      with Inr v show ?thesis by (simp add: external_tutorials_def tutorials_try_list)
    next
      case r: (Inr out)
      from append_each_empty [OF r] r Inr v show ?thesis
        by (simp add: external_tutorials_def tutorials_try_list)
    qed
  next
    case False
    with Inr show ?thesis by (simp add: external_tutorials_def tutorials_try_not_list)
  qed
qed

lemma external_tutorials_empty_iff:
  "external_tutorials lib up d = [] \<longleftrightarrow> get_tutorials up d = Inr (JList [])"
proof
  assume e: "external_tutorials lib up d = []"
  with external_tutorials_cases [of lib up d] mock_tutorials_not_empty [of d]
  obtain its where "get_tutorials up d = Inr (JList its)"
    and "list_all2 (\<lambda>it t. tutorial_item lib it = Inr t) its []"
    by auto
  then show "get_tutorials up d = Inr (JList [])" by simp
next
  assume "get_tutorials up d = Inr (JList [])"
  then show "external_tutorials lib up d = []"
    by (simp add: external_tutorials_def tutorials_try_list)
qed

text \<open>
  C7, as stated, fails: the two fallback tutorials carry two different video ids.
\<close>

theorem tutorials_video_ids_counterexample:
  "videoId (external_tutorials strict_lib unreachable ''Rust'' ! 0) \<noteq>
   videoId (external_tutorials strict_lib unreachable ''Rust'' ! 1)"
  by (simp add: external_tutorials_def tutorials_try_def unreachable_def mock_tutorials_def)

text \<open>
  C7, amended: when the call fails or the answer is not a list, the result is exactly two
  tutorials whose titles are built from the disease name and whose other fields are
  constants; each has its own fixed video id, on which its thumbnail and url are built,
  and the two ids differ.
\<close>

theorem tutorials_fallback:
  "(get_tutorials up d = Inl e \<or> get_tutorials up d = Inr v \<and> (\<forall>its. v \<noteq> JList its) \<longrightarrow>
      external_tutorials lib up d =
        [\<lparr>title = ''How to treat '' @ d, videoId = Some ''dQw4w9WgXcQ'',
          thumbnail = Some ''https://img.youtube.com/vi/dQw4w9WgXcQ/hqdefault.jpg'',
          url = Some ''https://www.youtube.com/watch?v=dQw4w9WgXcQ''\<rparr>,
         \<lparr>title = ''Preventing '' @ d @ '' in your garden'', videoId = Some ''9bZkp7q19f0'',
          thumbnail = Some ''https://img.youtube.com/vi/9bZkp7q19f0/hqdefault.jpg'',
          url = Some ''https://www.youtube.com/watch?v=9bZkp7q19f0''\<rparr>]) \<and>
   Some ''dQw4w9WgXcQ'' \<noteq> Some ''9bZkp7q19f0''"
proof -
  have a: "get_tutorials up d = Inl e \<longrightarrow> external_tutorials lib up d = mock_tutorials d"
    by (simp add: external_tutorials_def tutorials_try_failed)
  have b: "get_tutorials up d = Inr v \<and> (\<forall>its. v \<noteq> JList its) \<longrightarrow>
      external_tutorials lib up d = mock_tutorials d"
    by (auto simp: external_tutorials_def tutorials_try_not_list)
  have c: "Some ''dQw4w9WgXcQ'' \<noteq> Some ''9bZkp7q19f0''" by simp
  from a b c show ?thesis unfolding mock_tutorials_def by blast
qed

theorem tutorials_fallback_witness:
  "get_tutorials unreachable ''Rust'' = Inl RequestException \<and>
   external_tutorials strict_lib unreachable ''Rust'' =
        [\<lparr>title = ''How to treat Rust'', videoId = Some ''dQw4w9WgXcQ'',
          thumbnail = Some ''https://img.youtube.com/vi/dQw4w9WgXcQ/hqdefault.jpg'',
          url = Some ''https://www.youtube.com/watch?v=dQw4w9WgXcQ''\<rparr>,
         \<lparr>title = ''Preventing Rust in your garden'', videoId = Some ''9bZkp7q19f0'',
          thumbnail = Some ''https://img.youtube.com/vi/9bZkp7q19f0/hqdefault.jpg'',
          url = Some ''https://www.youtube.com/watch?v=9bZkp7q19f0''\<rparr>]"
proof -
  have h: "get_tutorials unreachable ''Rust'' = Inl RequestException"
    by (simp add: unreachable_def)
  from h tutorials_fallback [of unreachable "''Rust''" RequestException JNull strict_lib]
  have "external_tutorials strict_lib unreachable ''Rust'' =
        [\<lparr>title = ''How to treat '' @ ''Rust'', videoId = Some ''dQw4w9WgXcQ'',
          thumbnail = Some ''https://img.youtube.com/vi/dQw4w9WgXcQ/hqdefault.jpg'',
          url = Some ''https://www.youtube.com/watch?v=dQw4w9WgXcQ''\<rparr>,
         \<lparr>title = ''Preventing '' @ ''Rust'' @ '' in your garden'', videoId = Some ''9bZkp7q19f0'',
          thumbnail = Some ''https://img.youtube.com/vi/9bZkp7q19f0/hqdefault.jpg'',
          url = Some ''https://www.youtube.com/watch?v=9bZkp7q19f0''\<rparr>]"
    by blast
  with h show ?thesis by simp
qed

text \<open>
  C10: a successful answer that is the empty list gives the empty sequence; the two-item
  fallback is what a failed call and an answer that is not a list give.
\<close>

theorem tutorials_empty_preserved:
  "(get_tutorials up d = Inr (JList []) \<longrightarrow> external_tutorials lib up d = []) \<and>
   (get_tutorials up d = Inl e \<longrightarrow> external_tutorials lib up d = mock_tutorials d) \<and>
   (get_tutorials up d = Inr v \<and> (\<forall>its. v \<noteq> JList its) \<longrightarrow>
      external_tutorials lib up d = mock_tutorials d) \<and>
   length (mock_tutorials d) = 2"
proof -
  have a: "get_tutorials up d = Inr (JList []) \<longrightarrow> external_tutorials lib up d = []"
    by (simp add: external_tutorials_empty_iff)
  have b: "get_tutorials up d = Inl e \<longrightarrow> external_tutorials lib up d = mock_tutorials d"
    by (simp add: external_tutorials_def tutorials_try_failed)
  have c: "get_tutorials up d = Inr v \<and> (\<forall>its. v \<noteq> JList its) \<longrightarrow>
      external_tutorials lib up d = mock_tutorials d"
    by (auto simp: external_tutorials_def tutorials_try_not_list)
  have d: "length (mock_tutorials d) = 2" by (simp add: mock_tutorials_def)
  from a b c d show ?thesis by blast
qed

theorem tutorials_empty_preserved_witness:
  "(get_tutorials (replying rust_07 JNull JNull (JList [])) ''Rust'' = Inr (JList []) \<and>
    external_tutorials strict_lib (replying rust_07 JNull JNull (JList [])) ''Rust'' = []) \<and>
   (get_tutorials unreachable ''Rust'' = Inl RequestException \<and>
    external_tutorials strict_lib unreachable ''Rust'' = mock_tutorials ''Rust'') \<and>
   (get_tutorials (replying rust_07 JNull JNull (JStr ''none'')) ''Rust'' = Inr (JStr ''none'') \<and>
    (\<forall>its. JStr ''none'' \<noteq> JList its) \<and>
    external_tutorials strict_lib (replying rust_07 JNull JNull (JStr ''none'')) ''Rust''
      = mock_tutorials ''Rust'')"
proof -
  have h1: "get_tutorials (replying rust_07 JNull JNull (JList [])) ''Rust'' = Inr (JList [])"
    by (simp add: replying_def)
  have h2: "get_tutorials unreachable ''Rust'' = Inl RequestException"
    by (simp add: unreachable_def)
  have h3: "get_tutorials (replying rust_07 JNull JNull (JStr ''none'')) ''Rust''
      = Inr (JStr ''none'')"
    by (simp add: replying_def)
  have h3': "\<forall>its. JStr ''none'' \<noteq> JList its" by simp
  from h1 tutorials_empty_preserved
    [of "replying rust_07 JNull JNull (JList [])" "''Rust''" strict_lib RequestException JNull]
  have c1: "external_tutorials strict_lib (replying rust_07 JNull JNull (JList [])) ''Rust'' = []"
    by blast
  from h2 tutorials_empty_preserved
    [of unreachable "''Rust''" strict_lib RequestException JNull]
  have c2: "external_tutorials strict_lib unreachable ''Rust'' = mock_tutorials ''Rust''"
    by blast
  from h3 h3' tutorials_empty_preserved
    [of "replying rust_07 JNull JNull (JStr ''none'')" "''Rust''" strict_lib RequestException
      "JStr ''none''"]
  have c3: "external_tutorials strict_lib (replying rust_07 JNull JNull (JStr ''none'')) ''Rust''
      = mock_tutorials ''Rust''"
    by blast
  from h1 h2 h3 h3' c1 c2 c3 show ?thesis by blast
qed

section \<open>\<open>analyze\<close>\<close>

lemma analyze_result:
  "external_predict lib up (PredictRequest.image req) = Inr r \<Longrightarrow>
   map_sum id fst (analyze lib up db s req) =
     Inr \<lparr>result = r,
          treatments = external_treatments lib up (disease r),
          products = external_products lib up (disease r),
          tutorials = external_tutorials lib up (disease r)\<rparr>"
  by (simp add: analyze_def)

lemma analyze_ignores_store:
  "map_sum id fst (analyze lib up db s req) = map_sum id fst (analyze lib up None s req)"
  by (simp add: analyze_def split: sum.splits)

text \<open>
  C5, as stated, fails: when the three lookups are answered with empty lists, the three
  sequences of the bundle are empty.
\<close>

theorem analyze_empty_counterexample:
  "map_sum id fst
     (analyze strict_lib (replying rust_07 (JList []) (JList []) (JList [])) None ()
        \<lparr>PredictRequest.image = ''ZmFrZQ==''\<rparr>)
   = Inr \<lparr>result = \<lparr>disease = ''Rust'', confidence = Finite 0.7, organ = Some ''leaf'',
                     severity = Some ''medium''\<rparr>,
          treatments = [], products = [], tutorials = []\<rparr>"
  by (simp add: analyze_def external_predict_def predict_try_def replying_def rust_07_def
      new_PredictResponse_def dget_default_def severity_of_def external_treatments_def
      treatments_try_def external_products_def products_try_def external_tutorials_def
      tutorials_try_def)

text \<open>
  C5, amended: whenever \<open>external_predict\<close> returns a record, \<open>analyze\<close> returns the
  bundle of that record, whose severity is the threshold function of its confidence, and
  of the three lookups made with its disease; each of the three sequences is empty
  exactly when its upstream call answered with the empty list; and the store, absent,
  working or failing, never changes what is returned.
\<close>

theorem analyze_bundle:
  "(external_predict lib up (PredictRequest.image req) = Inr r \<longrightarrow>
      map_sum id fst (analyze lib up db s req) =
        Inr \<lparr>result = r,
             treatments = external_treatments lib up (disease r),
             products = external_products lib up (disease r),
             tutorials = external_tutorials lib up (disease r)\<rparr> \<and>
      severity r = Some (severity_of (confidence r))) \<and>
   (external_treatments lib up d = [] \<longleftrightarrow> get_treatments up d = Inr (JList [])) \<and>
   (external_products lib up d = [] \<longleftrightarrow> get_products up d = Inr (JList [])) \<and>
   (external_tutorials lib up d = [] \<longleftrightarrow> get_tutorials up d = Inr (JList [])) \<and>
   map_sum id fst (analyze lib up db s req) = map_sum id fst (analyze lib up None s req)"
  using analyze_result [of lib up req r db s] external_predict_severity [of lib up _ r]
    external_treatments_empty_iff [of lib up d] external_products_empty_iff [of lib up d]
    external_tutorials_empty_iff [of lib up d] analyze_ignores_store [of lib up db s req]
  by blast

theorem analyze_bundle_witness:
  "external_predict strict_lib unreachable (PredictRequest.image \<lparr>PredictRequest.image = ''ZmFrZQ==''\<rparr>)
     = Inr \<lparr>disease = ''Leaf Blight'', confidence = Finite 0.87, organ = Some ''leaf'',
            severity = Some ''high''\<rparr> \<and>
   map_sum id fst
     (analyze strict_lib unreachable (Some failing_store) ()
        \<lparr>PredictRequest.image = ''ZmFrZQ==''\<rparr>) =
     Inr \<lparr>result = \<lparr>disease = ''Leaf Blight'', confidence = Finite 0.87, organ = Some ''leaf'',
                     severity = Some ''high''\<rparr>,
          treatments = [leaf_spot_advice],
          products = fallback_products,
          tutorials = mock_tutorials ''Leaf Blight''\<rparr>"
proof -
  let ?r = "\<lparr>disease = ''Leaf Blight'', confidence = Finite 0.87, organ = Some ''leaf'',
            severity = Some ''high''\<rparr>"
  let ?req = "\<lparr>PredictRequest.image = ''ZmFrZQ==''\<rparr>"
  have h: "external_predict strict_lib unreachable (PredictRequest.image ?req) = Inr ?r"
    by (simp add: external_predict_def predict_try_def unreachable_def new_PredictResponse_def
        severity_of_def)
  have t: "external_treatments strict_lib unreachable ''Leaf Blight'' = [leaf_spot_advice]"
    by (simp add: external_treatments_def treatments_try_def unreachable_def)
  have p: "external_products strict_lib unreachable ''Leaf Blight'' = fallback_products"
    by (simp add: external_products_def products_try_def unreachable_def)
  have u: "external_tutorials strict_lib unreachable ''Leaf Blight''
      = mock_tutorials ''Leaf Blight''"
    by (simp add: external_tutorials_def tutorials_try_def unreachable_def)
  from h analyze_bundle [of strict_lib unreachable ?req ?r "Some failing_store" "()" "''Rust''"]
  have "map_sum id fst (analyze strict_lib unreachable (Some failing_store) () ?req) =
        Inr \<lparr>result = ?r,
             treatments = external_treatments strict_lib unreachable (disease ?r),
             products = external_products strict_lib unreachable (disease ?r),
             tutorials = external_tutorials strict_lib unreachable (disease ?r)\<rparr>"
    by blast
  with h t p u show ?thesis by simp
qed

section \<open>\<open>recent\<close>\<close>

text \<open>
  C8: for every limit, without a store, and with a store whose read or whose projection
  raises, \<open>recent\<close> returns exactly the four fixed records.
\<close>

theorem recent_mock:
  "recent None s limit = mock_recent \<and>
   (find_recent d limit s = Inl e \<longrightarrow> recent (Some d) s limit = mock_recent) \<and>
   (recent_try d s limit = Inl e \<longrightarrow> recent (Some d) s limit = mock_recent) \<and>
   mock_recent =
     [[(''disease'', JStr ''Leaf Blight''), (''confidence'', JFloat (Finite 0.87)),
       (''severity'', JStr ''high'')],
      [(''disease'', JStr ''Powdery Mildew''), (''confidence'', JFloat (Finite 0.76)),
       (''severity'', JStr ''medium'')],
      [(''disease'', JStr ''Rust''), (''confidence'', JFloat (Finite 0.63)),
       (''severity'', JStr ''medium'')],
      [(''disease'', JStr ''Healthy''), (''confidence'', JFloat (Finite 0.94)),
       (''severity'', JStr ''low'')]]"
proof -
  have a: "recent None s limit = mock_recent" by (simp add: recent_def)
  have b: "find_recent d limit s = Inl e \<longrightarrow> recent (Some d) s limit = mock_recent"
    by (simp add: recent_def recent_try_def)
  have c: "recent_try d s limit = Inl e \<longrightarrow> recent (Some d) s limit = mock_recent"
    by (simp add: recent_def)
  from a b c mock_recent_def show ?thesis by blast
qed

theorem recent_mock_witness:
  "find_recent failing_store 5 () = Inl StoreError \<and>
   recent (Some failing_store) () 5 = mock_recent \<and>
   recent_try failing_store () 5 = Inl StoreError \<and>
   recent (None :: unit database option) () 5 = mock_recent"
proof -
  have h1: "find_recent failing_store 5 () = Inl StoreError"
    by (simp add: failing_store_def)
  have h2: "recent_try failing_store () 5 = Inl StoreError"
    by (simp add: recent_try_def failing_store_def)
  from h1 h2 recent_mock [of "()" 5 failing_store StoreError] show ?thesis by blast
qed

end
